theory Spec2Isabelle
  imports Main "HOL-Library.Word" "HOL-Library.AList"
begin

unbundle bit_operations_syntax

section \<open>Python values\<close>

text \<open>
  A Python \<open>str\<close> is a sequence of Unicode code points; \<open>len\<close> counts code points.
  Code points are natural numbers below \<open>0x110000\<close>. The helper \<open>str\<close> writes an ASCII
  literal.
\<close>

type_synonym pystr = "nat list"

type_synonym byte = "8 word"

definition str :: "string \<Rightarrow> pystr" where
  "str cs = map of_char cs"

text \<open>The exceptions that the code of \<open>auth_system.py\<close> can meet.\<close>

datatype py_exception =
    FileNotFoundError
  | JSONDecodeError
  | UnicodeDecodeError
  | UnicodeEncodeError
  | OSError
  | ValueError
  | RecursionError
  | TypeError
  | KeyError

text \<open>
  What \<open>json.load\<close> returns: \<open>None\<close>, a bool, an int, a float (its 64 bits), a
  str, a list, or a dict. A dict keeps insertion order and has distinct keys; it is an
  association list, read with \<open>map_of\<close> and written with \<open>AList.update\<close> (an existing
  key keeps its place, a new key goes last).
\<close>

datatype json =
    JNull
  | JBool bool
  | JInt int
  | JFloat "64 word"
  | JStr pystr
  | JArr "json list"
  | JObj "(pystr \<times> json) list"

text \<open>\<open>needle in haystack\<close> on two strings: the substring test.\<close>

fun substring :: "pystr \<Rightarrow> pystr \<Rightarrow> bool" where
  "substring xs [] = (xs = [])"
| "substring xs (y # ys) = (take (length xs) (y # ys) = xs \<or> substring xs ys)"

text \<open>
  \<open>key in obj\<close> for a string key: key membership on a dict, element equality on a list
  (only a string element equals a string), substring on a string; the other values are
  not iterable.
\<close>

fun py_in :: "pystr \<Rightarrow> json \<Rightarrow> py_exception + bool" where
  "py_in k (JObj kvs) = Inr (map_of kvs k \<noteq> None)"
| "py_in k (JArr xs) = Inr (List.member xs (JStr k))"
| "py_in k (JStr s) = Inr (substring k s)"
| "py_in k _ = Inl TypeError"

text \<open>\<open>obj[key]\<close> for a string key: only a dict can be indexed by a string.\<close>

fun getitem :: "json \<Rightarrow> pystr \<Rightarrow> py_exception + json" where
  "getitem (JObj kvs) k = (case map_of kvs k of None \<Rightarrow> Inl KeyError | Some v \<Rightarrow> Inr v)"
| "getitem _ k = Inl TypeError"

text \<open>\<open>obj[key] = value\<close> for a string key.\<close>

fun setitem :: "json \<Rightarrow> pystr \<Rightarrow> json \<Rightarrow> py_exception + json" where
  "setitem (JObj kvs) k v = Inr (JObj (AList.update k v kvs))"
| "setitem _ k v = Inl TypeError"

text \<open>\<open>len(obj)\<close>.\<close>

fun py_len :: "json \<Rightarrow> py_exception + int" where
  "py_len (JObj kvs) = Inr (int (length kvs))"
| "py_len (JArr xs) = Inr (int (length xs))"
| "py_len (JStr s) = Inr (int (length s))"
| "py_len _ = Inl TypeError"

section \<open>UTF-8 encoding\<close>

text \<open>
  \<open>password.encode()\<close> is the strict UTF-8 codec: a lone surrogate
  (\<open>U+D800\<close> to \<open>U+DFFF\<close>), which a Python string may hold, raises
  \<open>UnicodeEncodeError\<close>.
\<close>

definition is_surrogate :: "nat \<Rightarrow> bool" where
  "is_surrogate c = (0xD800 \<le> c \<and> c \<le> 0xDFFF)"

definition encodable :: "pystr \<Rightarrow> bool" where
  "encodable s = (\<not> list_ex is_surrogate s)"

definition utf8_char :: "nat \<Rightarrow> byte list" where
  "utf8_char c =
     (if c < 0x80 then [of_nat c]
      else if c < 0x800 then [of_nat (0xC0 + c div 64), of_nat (0x80 + c mod 64)]
      else if c < 0x10000 then
        [of_nat (0xE0 + c div 4096), of_nat (0x80 + c div 64 mod 64), of_nat (0x80 + c mod 64)]
      else
        [of_nat (0xF0 + c div 262144), of_nat (0x80 + c div 4096 mod 64),
         of_nat (0x80 + c div 64 mod 64), of_nat (0x80 + c mod 64)])"

definition encode :: "pystr \<Rightarrow> py_exception + byte list" where
  "encode s = (if encodable s then Inr (concat (map utf8_char s)) else Inl UnicodeEncodeError)"

section \<open>SHA-256\<close>

text \<open>
  \<open>hashlib.sha256(data).hexdigest()\<close>, following FIPS 180-4: 32-bit words, padding to
  512-bit blocks, the message schedule, 64 rounds per block, and the digest written as
  lowercase hexadecimal. The round constants and the initial hash value are written in
  decimal.
\<close>

type_synonym w32 = "32 word"

definition K256 :: "w32 list" where
  "K256 =
    [1116352408, 1899447441, 3049323471, 3921009573, 961987163, 1508970993,
     2453635748, 2870763221, 3624381080, 310598401, 607225278, 1426881987,
     1925078388, 2162078206, 2614888103, 3248222580, 3835390401, 4022224774,
     264347078, 604807628, 770255983, 1249150122, 1555081692, 1996064986,
     2554220882, 2821834349, 2952996808, 3210313671, 3336571891, 3584528711,
     113926993, 338241895, 666307205, 773529912, 1294757372, 1396182291,
     1695183700, 1986661051, 2177026350, 2456956037, 2730485921, 2820302411,
     3259730800, 3345764771, 3516065817, 3600352804, 4094571909, 275423344,
     430227734, 506948616, 659060556, 883997877, 958139571, 1322822218,
     1537002063, 1747873779, 1955562222, 2024104815, 2227730452, 2361852424,
     2428436474, 2756734187, 3204031479, 3329325298]"

definition H0 :: "w32 list" where
  "H0 = [1779033703, 3144134277, 1013904242, 2773480762,
         1359893119, 2600822924, 528734635, 1541459225]"

definition rotr :: "nat \<Rightarrow> w32 \<Rightarrow> w32" where
  "rotr n x = drop_bit n x OR push_bit (32 - n) x"

definition Ch :: "w32 \<Rightarrow> w32 \<Rightarrow> w32 \<Rightarrow> w32" where
  "Ch x y z = (x AND y) XOR (NOT x AND z)"

definition Maj :: "w32 \<Rightarrow> w32 \<Rightarrow> w32 \<Rightarrow> w32" where
  "Maj x y z = (x AND y) XOR (x AND z) XOR (y AND z)"

definition bsig0 :: "w32 \<Rightarrow> w32" where
  "bsig0 x = rotr 2 x XOR rotr 13 x XOR rotr 22 x"

definition bsig1 :: "w32 \<Rightarrow> w32" where
  "bsig1 x = rotr 6 x XOR rotr 11 x XOR rotr 25 x"

definition ssig0 :: "w32 \<Rightarrow> w32" where
  "ssig0 x = rotr 7 x XOR rotr 18 x XOR drop_bit 3 x"

definition ssig1 :: "w32 \<Rightarrow> w32" where
  "ssig1 x = rotr 17 x XOR rotr 19 x XOR drop_bit 10 x"

text \<open>The padded message: the bytes, \<open>0x80\<close>, zeros, and the bit length in 64 bits.\<close>

definition pad :: "byte list \<Rightarrow> byte list" where
  "pad m = m @ [0x80] @ replicate ((119 - length m mod 64) mod 64) 0
             @ map (\<lambda>i. ucast (drop_bit (8 * i) (word_of_nat (8 * length m) :: 64 word)))
                 [7, 6, 5, 4, 3, 2, 1, 0]"

definition be32 :: "byte \<Rightarrow> byte \<Rightarrow> byte \<Rightarrow> byte \<Rightarrow> w32" where
  "be32 a b c d = push_bit 24 (ucast a) OR push_bit 16 (ucast b) OR push_bit 8 (ucast c) OR ucast d"

fun words_of :: "byte list \<Rightarrow> w32 list" where
  "words_of (a # b # c # d # rest) = be32 a b c d # words_of rest"
| "words_of _ = []"

fun blocks :: "w32 list \<Rightarrow> w32 list list" where
  "blocks ws = (if length ws < 16 then [] else take 16 ws # blocks (drop 16 ws))"

declare blocks.simps [simp del]

text \<open>
  The message schedule, most recent word first: \<open>ws ! 1\<close> is \<open>W[t-2]\<close>, \<open>ws ! 6\<close> is
  \<open>W[t-7]\<close>, \<open>ws ! 14\<close> is \<open>W[t-15]\<close> and \<open>ws ! 15\<close> is \<open>W[t-16]\<close>.
\<close>

fun extend :: "nat \<Rightarrow> w32 list \<Rightarrow> w32 list" where
  "extend 0 ws = ws"
| "extend (Suc n) ws =
     extend n ((ssig1 (ws ! 1) + ws ! 6 + ssig0 (ws ! 14) + ws ! 15) # ws)"

definition schedule :: "w32 list \<Rightarrow> w32 list" where
  "schedule blk = rev (extend 48 (rev blk))"

fun sha_round :: "w32 list \<Rightarrow> w32 \<times> w32 \<Rightarrow> w32 list" where
  "sha_round [a, b, c, d, e, f, g, h] (k, w) =
     (let t1 = h + bsig1 e + Ch e f g + k + w;
          t2 = bsig0 a + Maj a b c
      in [t1 + t2, a, b, c, d + t1, e, f, g])"
| "sha_round st _ = st"

definition compress :: "w32 list \<Rightarrow> w32 list \<Rightarrow> w32 list" where
  "compress hs blk = map2 (+) hs (foldl sha_round hs (zip K256 (schedule blk)))"

definition bytes_of :: "w32 \<Rightarrow> byte list" where
  "bytes_of w = map (\<lambda>i. ucast (drop_bit (8 * i) w)) [3, 2, 1, 0]"

definition sha256 :: "byte list \<Rightarrow> byte list" where
  "sha256 m = concat (map bytes_of (foldl compress H0 (blocks (words_of (pad m)))))"

definition hexdigit :: "nat \<Rightarrow> nat" where
  "hexdigit n = (if n < 10 then 48 + n else 87 + n)"

definition hexdigest :: "byte list \<Rightarrow> pystr" where
  "hexdigest bs = concat (map (\<lambda>b. [hexdigit (unat b div 16), hexdigit (unat b mod 16)]) bs)"

section \<open>The backing file\<close>

text \<open>
  The file at a path, by what \<open>os.path.exists\<close>, \<open>open(path, 'r', encoding='utf-8')\<close> and
  \<open>json.load\<close> do with it:
  \<^item> \<open>Absent\<close>: no file; \<open>os.path.exists\<close> is false.
  \<^item> \<open>NotUTF8\<close>: the bytes are not UTF-8 (a file holding the byte \<open>0xFF\<close>); reading the
    text raises \<open>UnicodeDecodeError\<close>.
  \<^item> \<open>NotJSON\<close>: UTF-8 text that is not a JSON document and on which \<open>json.load\<close>
    raises \<open>JSONDecodeError\<close> (an empty file, \<open>{"a":\<close>).
  \<^item> \<open>Unreadable e\<close>: the path exists and \<open>open\<close> or \<open>json.load\<close> raises the exception
    \<open>e\<close> (\<open>OSError\<close> for a directory or a file without permission, \<open>RecursionError\<close>
    or \<open>ValueError\<close> from the parser on brackets nested too deep or an integer too
    long).
  \<^item> \<open>Doc v\<close>: the text of a JSON document, which \<open>json.load\<close> parses to \<open>v\<close>.
\<close>

datatype file_state = Absent | NotUTF8 | NotJSON | Unreadable py_exception | Doc json

type_synonym filesystem = "pystr \<Rightarrow> file_state"

definition path_exists :: "file_state \<Rightarrow> bool" where
  "path_exists f = (f \<noteq> Absent)"

text \<open>\<open>with open(path, 'r', encoding='utf-8') as file: json.load(file)\<close>\<close>

fun open_json_load :: "file_state \<Rightarrow> py_exception + json" where
  "open_json_load Absent = Inl FileNotFoundError"
| "open_json_load NotUTF8 = Inl UnicodeDecodeError"
| "open_json_load NotJSON = Inl JSONDecodeError"
| "open_json_load (Unreadable e) = Inl e"
| "open_json_load (Doc v) = Inr v"

text \<open>
  What the operating system does with a write: it goes through, \<open>open(path, 'w')\<close>
  raises, or the file is opened (and so truncated) and a later write raises.
\<close>

datatype io = IoOk | OpenFails | WriteFails

text \<open>
  \<open>json.dump(users, file, indent=4, ensure_ascii=False)\<close> writes every string as it is,
  so a lone surrogate in any key or value raises \<open>UnicodeEncodeError\<close> at the write.
\<close>

fun json_encodable :: "json \<Rightarrow> bool" where
  "json_encodable (JStr s) = encodable s"
| "json_encodable (JArr xs) = (\<forall>x \<in> set xs. json_encodable x)"
| "json_encodable (JObj kvs) = (\<forall>kv \<in> set kvs. encodable (fst kv) \<and> json_encodable (snd kv))"
| "json_encodable _ = True"

section \<open>The AuthSystem object and its world\<close>

text \<open>
  The attributes of an \<open>AuthSystem\<close> object (\<open>users_file\<close>, \<open>failed_attempts\<close>,
  \<open>max_attempts\<close>) together with the file system it runs against (\<open>disk\<close>). Every method
  takes the world and returns its outcome with the world it leaves.
\<close>

record world =
  users_file :: pystr
  failed_attempts :: "pystr \<rightharpoonup> int"
  max_attempts :: int
  disk :: filesystem

text \<open>\<open>AuthSystem(users_file)\<close>, on a file system \<open>d\<close>.\<close>

definition init :: "pystr \<Rightarrow> filesystem \<Rightarrow> world" where
  "init path d = \<lparr>users_file = path, failed_attempts = Map.empty, max_attempts = 3, disk = d\<rparr>"

text \<open>A file system with no file at all.\<close>

definition no_files :: filesystem where
  "no_files = (\<lambda>path. Absent)"

text \<open>
  The second component of the pairs that \<open>register_user\<close> and \<open>login\<close> return, by the
  f-string or literal that the code returns (\<open>message_text\<close> gives the text).
\<close>

datatype message =
    EmptyFields
  | UsernameTooShort
  | PasswordTooShort
  | UserExists
  | Registered
  | SaveError
  | Blocked int
  | NotFound
  | LoginOk
  | WrongPassword int

fun digits :: "nat \<Rightarrow> pystr" where
  "digits n = (if n < 10 then [48 + n] else digits (n div 10) @ [48 + n mod 10])"

definition str_of_int :: "int \<Rightarrow> pystr" where
  "str_of_int i = (if i < 0 then 45 # digits (nat (- i)) else digits (nat i))"

fun message_text :: "message \<Rightarrow> pystr" where
  "message_text EmptyFields =
     str ''El nombre de usuario y la contrase'' @ [241] @ str ''a no pueden estar vac'' @ [237] @ str ''os''"
| "message_text UsernameTooShort = str ''El nombre de usuario debe tener al menos 3 caracteres''"
| "message_text PasswordTooShort =
     str ''La contrase'' @ [241] @ str ''a debe tener al menos 6 caracteres''"
| "message_text UserExists = str ''El usuario ya existe''"
| "message_text Registered = str ''Usuario registrado exitosamente''"
| "message_text SaveError = str ''Error al guardar el usuario''"
| "message_text (Blocked m) =
     str ''Usuario bloqueado. Has superado el m'' @ [225] @ str ''ximo de '' @ str_of_int m
       @ str '' intentos''"
| "message_text NotFound = str ''Usuario no encontrado''"
| "message_text LoginOk = str ''Login exitoso''"
| "message_text (WrongPassword r) =
     str ''Contrase'' @ [241] @ str ''a incorrecta. Te quedan '' @ str_of_int r @ str '' intentos''"

type_synonym 'a outcome = "py_exception + 'a"

subsection \<open>Hashing, loading and saving\<close>

text \<open>\<open>_hash_password\<close>: \<open>hashlib.sha256(password.encode()).hexdigest()\<close>\<close>

definition hash_password :: "pystr \<Rightarrow> pystr outcome" where
  "hash_password password =
     (case encode password of
        Inl e \<Rightarrow> Inl e
      | Inr bs \<Rightarrow> Inr (hexdigest (sha256 bs)))"

text \<open>
  \<open>_load_users\<close>: the \<open>try\<close> returns \<open>{}\<close> when the path does not exist, and the
  \<open>except\<close> clause turns \<open>FileNotFoundError\<close> and \<open>json.JSONDecodeError\<close> into \<open>{}\<close>;
  any other exception propagates.
\<close>

definition load_users :: "world \<Rightarrow> json outcome" where
  "load_users w =
     (let f = disk w (users_file w) in
      if path_exists f then
        (case open_json_load f of
           Inl e \<Rightarrow> if e = FileNotFoundError \<or> e = JSONDecodeError then Inr (JObj []) else Inl e
         | Inr v \<Rightarrow> Inr v)
      else Inr (JObj []))"

text \<open>
  \<open>_save_users\<close>: every exception is caught and makes the result \<open>False\<close>. When \<open>open\<close>
  raises, the file is as it was. When the file has been opened for writing and
  \<open>json.dump\<close> raises, the file is left with the part written so far, which is not a
  JSON document. The line that \<open>print\<close> writes is not part of the model.
\<close>

definition save_users :: "io \<Rightarrow> json \<Rightarrow> world \<Rightarrow> bool \<times> world" where
  "save_users env users w =
     (case env of
        OpenFails \<Rightarrow> (False, w)
      | WriteFails \<Rightarrow> (False, w\<lparr>disk := (disk w)(users_file w := NotJSON)\<rparr>)
      | IoOk \<Rightarrow>
          if json_encodable users then (True, w\<lparr>disk := (disk w)(users_file w := Doc users)\<rparr>)
          else (False, w\<lparr>disk := (disk w)(users_file w := NotJSON)\<rparr>))"

subsection \<open>The lockout tracker\<close>

text \<open>\<open>self.failed_attempts.get(username, 0)\<close>\<close>

definition attempts :: "world \<Rightarrow> pystr \<Rightarrow> int" where
  "attempts w username = (case failed_attempts w username of None \<Rightarrow> 0 | Some n \<Rightarrow> n)"

text \<open>\<open>_is_user_blocked\<close>\<close>

definition is_user_blocked :: "pystr \<Rightarrow> world \<Rightarrow> bool" where
  "is_user_blocked username w = (attempts w username \<ge> max_attempts w)"

text \<open>\<open>_increment_failed_attempts\<close>\<close>

definition increment_failed_attempts :: "pystr \<Rightarrow> world \<Rightarrow> world" where
  "increment_failed_attempts username w =
     w\<lparr>failed_attempts := (failed_attempts w)(username \<mapsto> attempts w username + 1)\<rparr>"

text \<open>\<open>_reset_failed_attempts\<close>\<close>

definition reset_failed_attempts :: "pystr \<Rightarrow> world \<Rightarrow> world" where
  "reset_failed_attempts username w =
     (if username \<in> dom (failed_attempts w)
      then w\<lparr>failed_attempts := (failed_attempts w)(username := None)\<rparr>
      else w)"

text \<open>\<open>unblock_user\<close>\<close>

definition unblock_user :: "pystr \<Rightarrow> world \<Rightarrow> bool \<times> world" where
  "unblock_user username w =
     (if username \<in> dom (failed_attempts w)
      then (True, w\<lparr>failed_attempts := (failed_attempts w)(username := None)\<rparr>)
      else (False, w))"

subsection \<open>Registration and login\<close>

text \<open>
  \<open>register_user\<close>. \<open>env\<close> is what the operating system does with the write and \<open>now\<close>
  is \<open>datetime.now().isoformat()\<close>.
\<close>

definition register_user ::
  "io \<Rightarrow> pystr \<Rightarrow> pystr \<Rightarrow> pystr \<Rightarrow> world \<Rightarrow> (bool \<times> message) outcome \<times> world" where
  "register_user env now username password w =
     (if username = [] \<or> password = [] then (Inr (False, EmptyFields), w)
      else if length username < 3 then (Inr (False, UsernameTooShort), w)
      else if length password < 6 then (Inr (False, PasswordTooShort), w)
      else
        case load_users w of
          Inl e \<Rightarrow> (Inl e, w)
        | Inr users \<Rightarrow>
            (case py_in username users of
               Inl e \<Rightarrow> (Inl e, w)
             | Inr True \<Rightarrow> (Inr (False, UserExists), w)
             | Inr False \<Rightarrow>
                 (case hash_password password of
                    Inl e \<Rightarrow> (Inl e, w)
                  | Inr hashed_password \<Rightarrow>
                      (case setitem users username
                              (JObj [(str ''password'', JStr hashed_password),
                                     (str ''created_at'', JStr now)]) of
                         Inl e \<Rightarrow> (Inl e, w)
                       | Inr users' \<Rightarrow>
                           (case save_users env users' w of
                              (True, w') \<Rightarrow> (Inr (True, Registered), w')
                            | (False, w') \<Rightarrow> (Inr (False, SaveError), w'))))))"

text \<open>\<open>login\<close>\<close>

definition login :: "pystr \<Rightarrow> pystr \<Rightarrow> world \<Rightarrow> (bool \<times> message) outcome \<times> world" where
  "login username password w =
     (if is_user_blocked username w then (Inr (False, Blocked (max_attempts w)), w)
      else
        case load_users w of
          Inl e \<Rightarrow> (Inl e, w)
        | Inr users \<Rightarrow>
            (case py_in username users of
               Inl e \<Rightarrow> (Inl e, w)
             | Inr False \<Rightarrow> (Inr (False, NotFound), increment_failed_attempts username w)
             | Inr True \<Rightarrow>
                 (case hash_password password of
                    Inl e \<Rightarrow> (Inl e, w)
                  | Inr hashed_password \<Rightarrow>
                      (case getitem users username of
                         Inl e \<Rightarrow> (Inl e, w)
                       | Inr user \<Rightarrow>
                           (case getitem user (str ''password'') of
                              Inl e \<Rightarrow> (Inl e, w)
                            | Inr stored \<Rightarrow>
                                if stored = JStr hashed_password
                                then (Inr (True, LoginOk), reset_failed_attempts username w)
                                else
                                  (let w' = increment_failed_attempts username w;
                                       remaining = max_attempts w' - attempts w' username
                                   in if remaining \<le> 0
                                      then (Inr (False, Blocked (max_attempts w')), w')
                                      else (Inr (False, WrongPassword remaining), w')))))))"

text \<open>\<open>get_user_count\<close> and \<open>user_exists\<close>\<close>

definition get_user_count :: "world \<Rightarrow> int outcome \<times> world" where
  "get_user_count w =
     (case load_users w of
        Inl e \<Rightarrow> (Inl e, w)
      | Inr users \<Rightarrow> (py_len users, w))"

definition user_exists :: "pystr \<Rightarrow> world \<Rightarrow> bool outcome \<times> world" where
  "user_exists username w =
     (case load_users w of
        Inl e \<Rightarrow> (Inl e, w)
      | Inr users \<Rightarrow> (py_in username users, w))"

text \<open>A caller that logs in with one password after another, as the tests' loop does.\<close>

fun logins ::
  "pystr \<Rightarrow> pystr list \<Rightarrow> world \<Rightarrow> (bool \<times> message) outcome list \<times> world" where
  "logins username [] w = ([], w)"
| "logins username (p # ps) w =
     (let (r, w') = login username p w;
          (rs, w'') = logins username ps w'
      in (r # rs, w''))"

section \<open>Lowercase hexadecimal\<close>

text \<open>The code points of \<open>0\<close> to \<open>9\<close> and \<open>a\<close> to \<open>f\<close>.\<close>

definition lower_hex :: "nat \<Rightarrow> bool" where
  "lower_hex c = ((48 \<le> c \<and> c \<le> 57) \<or> (97 \<le> c \<and> c \<le> 102))"

section \<open>Concrete worlds\<close>

text \<open>
  The inputs at which the theorems below are instantiated: a user \<open>alice\<close> with the
  password \<open>secret1\<close>, an unknown user \<open>ghost\<close>, a name of 31 letters, a name with a
  lone surrogate, the digests of \<open>secret1\<close>, \<open>wrong\<close> and \<open>123456\<close>, the worlds
  before and after \<open>alice\<close> registers, and worlds whose file is text that is not JSON
  or bytes that are not UTF-8.
\<close>

abbreviation users_json :: pystr where
  "users_json \<equiv> str ''users.json''"

abbreviation t0 :: pystr where
  "t0 \<equiv> str ''2024-01-01T00:00:00''"

abbreviation alice :: pystr where
  "alice \<equiv> str ''alice''"

abbreviation ghost :: pystr where
  "ghost \<equiv> str ''ghost''"

abbreviation long_name :: pystr where
  "long_name \<equiv> replicate 31 97"

abbreviation surrogate_name :: pystr where
  "surrogate_name \<equiv> [97, 98, 0xD800]"

abbreviation secret1_digest :: pystr where
  "secret1_digest \<equiv> str ''5b11618c2e44027877d0cd0921ed166b9f176f50587fc91e7534dd2946db77d6''"

abbreviation wrong_digest :: pystr where
  "wrong_digest \<equiv> str ''8810ad581e59f2bc3928b261707a71308f7e139eb04820366dc4d5c18d980225''"

abbreviation digest_123456 :: pystr where
  "digest_123456 \<equiv> hexdigest (sha256 [49, 50, 51, 52, 53, 54])"

abbreviation alice_store :: "(pystr \<times> json) list" where
  "alice_store \<equiv>
     [(alice, JObj [(str ''password'', JStr secret1_digest), (str ''created_at'', JStr t0)])]"

abbreviation ghost_store :: "(pystr \<times> json) list" where
  "ghost_store \<equiv>
     [(ghost, JObj [(str ''password'', JStr secret1_digest), (str ''created_at'', JStr t0)])]"

abbreviation abc_store :: "(pystr \<times> json) list" where
  "abc_store \<equiv>
     [(str ''abc'', JObj [(str ''password'', JStr digest_123456), (str ''created_at'', JStr t0)])]"

abbreviation long_store :: "(pystr \<times> json) list" where
  "long_store \<equiv>
     [(long_name, JObj [(str ''password'', JStr digest_123456), (str ''created_at'', JStr t0)])]"

abbreviation w_fresh :: world where
  "w_fresh \<equiv> init users_json no_files"

abbreviation w_malformed :: world where
  "w_malformed \<equiv> init users_json (no_files(users_json := NotJSON))"

abbreviation w_undecodable :: world where
  "w_undecodable \<equiv> init users_json (no_files(users_json := NotUTF8))"

abbreviation w_alice :: world where
  "w_alice \<equiv> init users_json (no_files(users_json := Doc (JObj alice_store)))"

abbreviation w_alice_blocked :: world where
  "w_alice_blocked \<equiv> w_alice\<lparr>failed_attempts := [alice \<mapsto> 3]\<rparr>"

abbreviation w_ghost_blocked :: world where
  "w_ghost_blocked \<equiv> w_fresh\<lparr>failed_attempts := [ghost \<mapsto> 3]\<rparr>"

section \<open>The digest is 64 lowercase hexadecimal characters\<close>

lemma length_sha_round: "length st = 8 \<Longrightarrow> length (sha_round st kw) = 8"
proof -
  assume "length st = 8"
  then obtain a b c d e f g h where "st = [a, b, c, d, e, f, g, h]"
    by (auto simp: length_Suc_conv eval_nat_numeral)
  then show ?thesis by (cases kw) (simp add: Let_def)
qed

lemma length_foldl_sha_round: "length st = 8 \<Longrightarrow> length (foldl sha_round st kws) = 8"
  by (induction kws arbitrary: st) (simp_all add: length_sha_round)

lemma length_compress: "length hs = 8 \<Longrightarrow> length (compress hs blk) = 8"
  by (simp add: compress_def length_foldl_sha_round)

lemma length_foldl_compress: "length hs = 8 \<Longrightarrow> length (foldl compress hs blks) = 8"
  by (induction blks arbitrary: hs) (simp_all add: length_compress)

lemma length_concat_bytes_of: "length (concat (map bytes_of ws)) = 4 * length ws"
  by (induction ws) (simp_all add: bytes_of_def)

lemma length_sha256: "length (sha256 m) = 32"
  by (simp add: sha256_def length_concat_bytes_of length_foldl_compress H0_def)

lemma length_hexdigest: "length (hexdigest bs) = 2 * length bs"
  by (induction bs) (simp_all add: hexdigest_def)

lemma lower_hex_hexdigit: "n < 16 \<Longrightarrow> lower_hex (hexdigit n)"
  by (auto simp: lower_hex_def hexdigit_def)

lemma unat_byte_div: "unat (b :: byte) div 16 < 16"
proof -
  have "unat b < 256" using unsigned_less [of b] by simp
  then show ?thesis by simp
qed

lemma hexdigest_lower_hex: "list_all lower_hex (hexdigest bs)"
  by (induction bs) (simp_all add: hexdigest_def lower_hex_hexdigit unat_byte_div)

text \<open>
  \<open>_hash_password\<close> raises exactly on a password with a lone surrogate; otherwise it
  returns 64 characters, each a lowercase hexadecimal digit.
\<close>

lemma hash_password_shape:
  assumes "hash_password p = Inr d"
  shows "length d = 64" and "list_all lower_hex d"
  using assms
  by (auto simp: hash_password_def length_hexdigest length_sha256 hexdigest_lower_hex
           split: sum.splits)

lemma lower_hex_not_surrogate: "lower_hex c \<Longrightarrow> \<not> is_surrogate c"
  by (auto simp: lower_hex_def is_surrogate_def)

lemma lower_hex_encodable: "list_all lower_hex d \<Longrightarrow> encodable d"
  by (auto simp: encodable_def list_all_iff list_ex_iff lower_hex_not_surrogate)

lemma hash_password_encodable: "hash_password p = Inr d \<Longrightarrow> encodable d"
  using hash_password_shape(2) lower_hex_encodable by blast


lemma hash_password_raises: "\<not> encodable p \<Longrightarrow> hash_password p = Inl UnicodeEncodeError"
  by (simp add: hash_password_def encode_def)

lemma length_str [simp]: "length (str cs) = length cs"
  by (simp add: str_def)

lemma str_Nil_iff [simp]: "str cs = [] \<longleftrightarrow> cs = []"
  by (simp add: str_def)

lemma encodable_str: "list_all (\<lambda>c. of_char c < (128::nat)) cs \<Longrightarrow> encodable (str cs)"
  by (induction cs) (auto simp: encodable_def str_def is_surrogate_def)

lemma encodable_replicate_a: "encodable (replicate n 97)"
  by (simp add: encodable_def list_ex_iff is_surrogate_def)

subsection \<open>Three digests, two of them evaluated\<close>

lemma sha256_secret1:
  "hexdigest (sha256 [115, 101, 99, 114, 101, 116, 49]) = secret1_digest"
  by code_simp

lemma sha256_wrong:
  "hexdigest (sha256 [119, 114, 111, 110, 103]) = wrong_digest"
  by code_simp

lemma hash_password_secret1: "hash_password (str ''secret1'') = Inr secret1_digest"
  unfolding sha256_secret1 [symmetric]
  by (simp add: hash_password_def encode_def encodable_def is_surrogate_def utf8_char_def str_def)

lemma hash_password_wrong: "hash_password (str ''wrong'') = Inr wrong_digest"
  unfolding sha256_wrong [symmetric]
  by (simp add: hash_password_def encode_def encodable_def is_surrogate_def utf8_char_def str_def)

lemma digests_differ: "wrong_digest \<noteq> secret1_digest"
  by (simp add: str_def)

lemma hash_password_123456: "hash_password (str ''123456'') = Inr digest_123456"
  by (simp add: hash_password_def encode_def encodable_def is_surrogate_def utf8_char_def str_def)

lemma encodable_digest_123456: "encodable digest_123456"
  using hash_password_123456 by (rule hash_password_encodable)

section \<open>The lockout tracker and the file\<close>

lemma load_users_increment [simp]:
  "load_users (increment_failed_attempts u w) = load_users w"
  by (simp add: load_users_def increment_failed_attempts_def)

lemma attempts_increment [simp]:
  "attempts (increment_failed_attempts u w) u = attempts w u + 1"
  by (simp add: attempts_def increment_failed_attempts_def)

lemma max_attempts_increment [simp]:
  "max_attempts (increment_failed_attempts u w) = max_attempts w"
  by (simp add: increment_failed_attempts_def)

lemma disk_increment [simp]:
  "disk (increment_failed_attempts u w) = disk w"
  by (simp add: increment_failed_attempts_def)

lemma disk_reset [simp]: "disk (reset_failed_attempts u w) = disk w"
  by (simp add: reset_failed_attempts_def)

lemma load_users_funpow_increment [simp]:
  "load_users ((increment_failed_attempts u ^^ n) w) = load_users w"
  by (induction n) simp_all

lemma attempts_funpow_increment [simp]:
  "attempts ((increment_failed_attempts u ^^ n) w) u = attempts w u + int n"
  by (induction n) simp_all

lemma max_attempts_funpow_increment [simp]:
  "max_attempts ((increment_failed_attempts u ^^ n) w) = max_attempts w"
  by (induction n) simp_all

lemma is_user_blocked_disk [simp]:
  "is_user_blocked u (w\<lparr>disk := d\<rparr>) = is_user_blocked u w"
  by (simp add: is_user_blocked_def attempts_def)

lemma load_users_fa [simp]: "load_users (w\<lparr>failed_attempts := fa\<rparr>) = load_users w"
  by (simp add: load_users_def)

lemma world_fa_upd_same: "failed_attempts w u = None \<Longrightarrow>
   w\<lparr>failed_attempts := (failed_attempts w)(u := None)\<rparr> = w"
proof -
  assume "failed_attempts w u = None"
  then have "(failed_attempts w)(u := None) = failed_attempts w" by (simp add: fun_upd_idem)
  then show ?thesis by simp
qed


lemma load_users_init_no_files:
  "load_users (init path no_files) = Inr (JObj [])"
  by (simp add: load_users_def init_def no_files_def path_exists_def)

lemma load_users_w_alice: "load_users w_alice = Inr (JObj alice_store)"
  by (simp add: load_users_def init_def path_exists_def)

section \<open>The branches of login\<close>

lemma login_blocked:
  "is_user_blocked u w \<Longrightarrow> login u p w = (Inr (False, Blocked (max_attempts w)), w)"
  by (simp add: login_def)

lemma login_not_found:
  assumes "\<not> is_user_blocked u w" and "load_users w = Inr users" and "py_in u users = Inr False"
  shows "login u p w = (Inr (False, NotFound), increment_failed_attempts u w)"
  using assms by (simp add: login_def)

lemma login_wrong:
  assumes "\<not> is_user_blocked u w" and "load_users w = Inr users" and "py_in u users = Inr True"
    and "getitem users u = Inr user" and "getitem user (str ''password'') = Inr stored"
    and "hash_password p = Inr d" and "stored \<noteq> JStr d"
  shows "login u p w =
     (Inr (False, if max_attempts w - (attempts w u + 1) \<le> 0 then Blocked (max_attempts w)
                  else WrongPassword (max_attempts w - (attempts w u + 1))),
      increment_failed_attempts u w)"
  using assms by (simp add: login_def Let_def)

lemma login_right:
  assumes "\<not> is_user_blocked u w" and "load_users w = Inr users" and "py_in u users = Inr True"
    and "getitem users u = Inr user" and "getitem user (str ''password'') = Inr (JStr d)"
    and "hash_password p = Inr d"
  shows "login u p w = (Inr (True, LoginOk), reset_failed_attempts u w)"
  using assms by (simp add: login_def)

lemma login_keeps_disk: "disk (snd (login u p w)) = disk w"
  by (simp add: login_def Let_def split: sum.splits bool.splits)

lemma logins_not_found:
  assumes "load_users w = Inr users" and "py_in u users = Inr False"
    and "attempts w u + int (length ps) \<le> max_attempts w"
  shows "logins u ps w =
           (replicate (length ps) (Inr (False, NotFound)),
            (increment_failed_attempts u ^^ length ps) w)"
  using assms
proof (induction ps arbitrary: w)
  case Nil
  then show ?case by simp
next
  case (Cons p ps)
  from Cons.prems have nb: "\<not> is_user_blocked u w"
    by (simp add: is_user_blocked_def)
  have step: "login u p w = (Inr (False, NotFound), increment_failed_attempts u w)"
    using nb Cons.prems(1,2) by (rule login_not_found)
  have rest: "logins u ps (increment_failed_attempts u w) =
           (replicate (length ps) (Inr (False, NotFound)),
            (increment_failed_attempts u ^^ length ps) (increment_failed_attempts u w))"
    using Cons.prems by (intro Cons.IH) simp_all
  show ?case
    by (simp add: step rest funpow_swap1)
qed

lemma logins_ghost:
  "snd (logins ghost [str ''guess1'', str ''guess2'', str ''guess3''] w_fresh) = w_ghost_blocked"
  by (simp add: login_def is_user_blocked_def attempts_def load_users_def path_exists_def
        increment_failed_attempts_def init_def no_files_def)

section \<open>The branches of registration\<close>

lemma save_users_ok:
  "fst (save_users env users w) \<Longrightarrow>
     snd (save_users env users w) = w\<lparr>disk := (disk w)(users_file w := Doc users)\<rparr>"
  by (auto simp: save_users_def split: io.splits if_splits)

lemma save_users_keeps_lockout:
  "failed_attempts (snd (save_users env users w)) = failed_attempts w"
  "max_attempts (snd (save_users env users w)) = max_attempts w"
  by (auto simp: save_users_def split: io.splits)

lemma save_users_fa:
  "save_users env users (w\<lparr>failed_attempts := fa\<rparr>) =
     (fst (save_users env users w), snd (save_users env users w)\<lparr>failed_attempts := fa\<rparr>)"
  by (simp add: save_users_def split: io.splits)

lemma register_user_saves:
  assumes "3 \<le> length u" and "6 \<le> length p"
    and "load_users w = Inr (JObj kvs)" and "map_of kvs u = None"
    and "hash_password p = Inr d"
    and "users' = JObj (AList.update u
                   (JObj [(str ''password'', JStr d), (str ''created_at'', JStr now)]) kvs)"
  shows "register_user env now u p w =
           (if fst (save_users env users' w) then Inr (True, Registered)
            else Inr (False, SaveError),
            snd (save_users env users' w))"
proof -
  from assms(1,2) have "u \<noteq> []" "p \<noteq> []" by auto
  then show ?thesis
    using assms by (cases "save_users env users' w") (auto simp: register_user_def)
qed


lemma register_user_frame:
  "register_user env now u p (w\<lparr>failed_attempts := fa\<rparr>) =
     (fst (register_user env now u p w), snd (register_user env now u p w)\<lparr>failed_attempts := fa\<rparr>)"
  by (simp add: register_user_def save_users_fa split: sum.splits bool.splits prod.splits)

lemma register_user_keeps_failed_attempts:
  "failed_attempts (snd (register_user env now u p w)) = failed_attempts w"
  by (auto simp: register_user_def save_users_def split: sum.splits bool.splits io.splits)

lemma register_user_fresh_alice:
  "register_user IoOk t0 alice (str ''secret1'') w_fresh = (Inr (True, Registered), w_alice)"
proof -
  have "register_user IoOk t0 alice (str ''secret1'') w_fresh =
           (if fst (save_users IoOk (JObj alice_store) w_fresh) then Inr (True, Registered)
            else Inr (False, SaveError),
            snd (save_users IoOk (JObj alice_store) w_fresh))"
    by (rule register_user_saves [where kvs = "[]" and d = secret1_digest])
       (simp_all add: load_users_init_no_files hash_password_secret1)
  moreover have "save_users IoOk (JObj alice_store) w_fresh = (True, w_alice)"
    by (simp add: save_users_def init_def encodable_str)
  ultimately show ?thesis by simp
qed

section \<open>Claims\<close>

subsection \<open>C1: three wrong passwords block the account\<close>



subsection \<open>C2: the validation boundaries of registration\<close>

text \<open>
  C2. \<open>register("", "abcdef")\<close>, \<open>register("ab", "abcdef")\<close> and
  \<open>register("abc", "12345")\<close> fail with a validation message and leave the world, and so
  the stored mapping, as it was. \<open>register("abc", "123456")\<close> on a store that is a mapping
  without \<open>abc\<close> succeeds when the save succeeds, and the file then holds the mapping
  with the new entry.
\<close>

theorem register_user_validation_boundaries:
  "register_user env now [] (str ''abcdef'') w = (Inr (False, EmptyFields), w)
   \<and> register_user env now (str ''ab'') (str ''abcdef'') w = (Inr (False, UsernameTooShort), w)
   \<and> register_user env now (str ''abc'') (str ''12345'') w = (Inr (False, PasswordTooShort), w)
   \<and> (load_users w = Inr (JObj kvs) \<and> map_of kvs (str ''abc'') = None
        \<and> hash_password (str ''123456'') = Inr d
        \<and> fst (save_users env (JObj (AList.update (str ''abc'')
                   (JObj [(str ''password'', JStr d), (str ''created_at'', JStr now)]) kvs)) w)
      \<longrightarrow> register_user env now (str ''abc'') (str ''123456'') w =
            (Inr (True, Registered),
             w\<lparr>disk := (disk w)(users_file w := Doc (JObj (AList.update (str ''abc'')
                   (JObj [(str ''password'', JStr d), (str ''created_at'', JStr now)]) kvs)))\<rparr>))"
proof (intro conjI impI)
  show "register_user env now [] (str ''abcdef'') w = (Inr (False, EmptyFields), w)"
    by (simp add: register_user_def)
  show "register_user env now (str ''ab'') (str ''abcdef'') w = (Inr (False, UsernameTooShort), w)"
    by (simp add: register_user_def)
  show "register_user env now (str ''abc'') (str ''12345'') w = (Inr (False, PasswordTooShort), w)"
    by (simp add: register_user_def)
  define users' where "users' = JObj (AList.update (str ''abc'')
                   (JObj [(str ''password'', JStr d), (str ''created_at'', JStr now)]) kvs)"
  assume h: "load_users w = Inr (JObj kvs) \<and> map_of kvs (str ''abc'') = None
        \<and> hash_password (str ''123456'') = Inr d
        \<and> fst (save_users env (JObj (AList.update (str ''abc'')
                   (JObj [(str ''password'', JStr d), (str ''created_at'', JStr now)]) kvs)) w)"
  then have s: "fst (save_users env users' w)" by (simp add: users'_def)
  have "register_user env now (str ''abc'') (str ''123456'') w =
           (if fst (save_users env users' w) then Inr (True, Registered)
            else Inr (False, SaveError),
            snd (save_users env users' w))"
    using h by (intro register_user_saves [where kvs = kvs and d = d]) (simp_all add: users'_def)
  then show "register_user env now (str ''abc'') (str ''123456'') w =
            (Inr (True, Registered),
             w\<lparr>disk := (disk w)(users_file w := Doc (JObj (AList.update (str ''abc'')
                   (JObj [(str ''password'', JStr d), (str ''created_at'', JStr now)]) kvs)))\<rparr>)"
    using s save_users_ok [OF s] by (simp add: users'_def)
qed

text \<open>The four calls on an empty file system, where the write goes through.\<close>

theorem register_user_validation_boundaries_witness:
  "register_user IoOk t0 [] (str ''abcdef'') w_fresh = (Inr (False, EmptyFields), w_fresh)
   \<and> register_user IoOk t0 (str ''ab'') (str ''abcdef'') w_fresh =
        (Inr (False, UsernameTooShort), w_fresh)
   \<and> register_user IoOk t0 (str ''abc'') (str ''12345'') w_fresh =
        (Inr (False, PasswordTooShort), w_fresh)
   \<and> load_users w_fresh = Inr (JObj [])
   \<and> hash_password (str ''123456'') = Inr digest_123456
   \<and> fst (save_users IoOk (JObj abc_store) w_fresh)
   \<and> register_user IoOk t0 (str ''abc'') (str ''123456'') w_fresh =
        (Inr (True, Registered), w_fresh\<lparr>disk := no_files(users_json := Doc (JObj abc_store))\<rparr>)"
proof -
  have h1: "load_users w_fresh = Inr (JObj [])"
    by (rule load_users_init_no_files)
  have h2: "fst (save_users IoOk (JObj abc_store) w_fresh)"
    by (simp add: save_users_def encodable_str encodable_digest_123456)
  note T = register_user_validation_boundaries [where w = w_fresh and env = IoOk and now = t0
      and kvs = "[]" and d = digest_123456]
  have a: "register_user IoOk t0 [] (str ''abcdef'') w_fresh = (Inr (False, EmptyFields), w_fresh)"
    and b: "register_user IoOk t0 (str ''ab'') (str ''abcdef'') w_fresh =
        (Inr (False, UsernameTooShort), w_fresh)"
    and c: "register_user IoOk t0 (str ''abc'') (str ''12345'') w_fresh =
        (Inr (False, PasswordTooShort), w_fresh)"
    using T by blast+
  have "register_user IoOk t0 (str ''abc'') (str ''123456'') w_fresh =
            (Inr (True, Registered),
             w_fresh\<lparr>disk := (disk w_fresh)(users_file w_fresh := Doc (JObj (AList.update (str ''abc'')
                   (JObj [(str ''password'', JStr digest_123456), (str ''created_at'', JStr t0)])
                   [])))\<rparr>)"
    using T h1 h2 hash_password_123456 by simp
  then have d: "register_user IoOk t0 (str ''abc'') (str ''123456'') w_fresh =
        (Inr (True, Registered), w_fresh\<lparr>disk := no_files(users_json := Doc (JObj abc_store))\<rparr>)"
    by (simp add: init_def)
  show ?thesis
    using a b c d h1 h2 hash_password_123456 by blast
qed

subsection \<open>C3: registration has no upper bound on the username\<close>

text \<open>
  C3 says that a username of more than 30 characters fails validation. The code checks
  only the lower bounds: a name of 31 letters registers.
\<close>

theorem register_user_accepts_31_characters:
  "30 < length long_name
   \<and> fst (register_user IoOk t0 long_name (str ''123456'') w_fresh) = Inr (True, Registered)"
proof -
  have "register_user IoOk t0 long_name (str ''123456'') w_fresh =
           (if fst (save_users IoOk (JObj long_store) w_fresh) then Inr (True, Registered)
            else Inr (False, SaveError),
            snd (save_users IoOk (JObj long_store) w_fresh))"
    by (rule register_user_saves [where kvs = "[]" and d = digest_123456])
       (simp_all add: load_users_init_no_files hash_password_123456)
  moreover have "fst (save_users IoOk (JObj long_store) w_fresh)"
    by (simp add: save_users_def encodable_str encodable_digest_123456 encodable_replicate_a)
  ultimately show ?thesis by simp
qed

text \<open>
  C3, amended. Registration enforces only the lower bound on the username: a username of
  fewer than 3 characters fails with a validation message and leaves the world as it
  was, and a username of more than 30 characters is not rejected for its length: with a
  password of at least 6 characters, a store that is a mapping without that username,
  and a save that succeeds, it registers.
\<close>

theorem register_user_has_no_upper_bound:
  "(length u < 3 \<longrightarrow>
      register_user env now u p w = (Inr (False, EmptyFields), w)
    \<or> register_user env now u p w = (Inr (False, UsernameTooShort), w))
   \<and> (30 < length u \<and> 6 \<le> length p
        \<and> load_users w = Inr (JObj kvs) \<and> map_of kvs u = None
        \<and> hash_password p = Inr d
        \<and> fst (save_users env (JObj (AList.update u
                   (JObj [(str ''password'', JStr d), (str ''created_at'', JStr now)]) kvs)) w)
      \<longrightarrow> fst (register_user env now u p w) = Inr (True, Registered))"
proof (intro conjI impI)
  assume "length u < 3"
  then show "register_user env now u p w = (Inr (False, EmptyFields), w)
    \<or> register_user env now u p w = (Inr (False, UsernameTooShort), w)"
    by (simp add: register_user_def)
next
  define users' where "users' = JObj (AList.update u
                   (JObj [(str ''password'', JStr d), (str ''created_at'', JStr now)]) kvs)"
  assume h: "30 < length u \<and> 6 \<le> length p
        \<and> load_users w = Inr (JObj kvs) \<and> map_of kvs u = None
        \<and> hash_password p = Inr d
        \<and> fst (save_users env (JObj (AList.update u
                   (JObj [(str ''password'', JStr d), (str ''created_at'', JStr now)]) kvs)) w)"
  then have "register_user env now u p w =
           (if fst (save_users env users' w) then Inr (True, Registered)
            else Inr (False, SaveError),
            snd (save_users env users' w))"
    by (intro register_user_saves [where kvs = kvs and d = d]) (simp_all add: users'_def)
  with h show "fst (register_user env now u p w) = Inr (True, Registered)"
    by (simp add: users'_def)
qed

text \<open>
  The name \<open>ab\<close> is refused, and a name of 31 letters registers on an empty file system.
\<close>

theorem register_user_has_no_upper_bound_witness:
  "length (str ''ab'') < 3
   \<and> register_user IoOk t0 (str ''ab'') (str ''123456'') w_fresh =
        (Inr (False, UsernameTooShort), w_fresh)
   \<and> 30 < length long_name \<and> 6 \<le> length (str ''123456'')
   \<and> load_users w_fresh = Inr (JObj []) \<and> map_of [] long_name = (None :: json option)
   \<and> hash_password (str ''123456'') = Inr digest_123456
   \<and> fst (save_users IoOk (JObj long_store) w_fresh)
   \<and> fst (register_user IoOk t0 long_name (str ''123456'') w_fresh) = Inr (True, Registered)"
proof -
  have h1: "load_users w_fresh = Inr (JObj [])"
    by (rule load_users_init_no_files)
  have h2: "fst (save_users IoOk (JObj long_store) w_fresh)"
    by (simp add: save_users_def encodable_str encodable_digest_123456 encodable_replicate_a)
  have h3: "30 < length long_name \<and> 6 \<le> length (str ''123456'')"
    by simp
  have h4: "length (str ''ab'') < 3"
    by simp
  have a: "register_user IoOk t0 (str ''ab'') (str ''123456'') w_fresh =
        (Inr (False, UsernameTooShort), w_fresh)"
    by (simp add: register_user_def)
  have "fst (register_user IoOk t0 long_name (str ''123456'') w_fresh) = Inr (True, Registered)"
    using register_user_has_no_upper_bound [where u = long_name and p = "str ''123456''"
      and w = w_fresh and env = IoOk and now = t0 and kvs = "[]" and d = digest_123456]
      h1 h2 h3 hash_password_123456 by simp
  then show ?thesis
    using a h1 h2 h3 h4 hash_password_123456 by simp
qed

subsection \<open>C5: a wrong password counts one failure\<close>

text \<open>
  C5. The user \<open>u\<close> is not blocked and is in the loaded mapping, and the digest of the
  password \<open>p\<close> is not the stored digest. Then login fails, and the failure count of
  \<open>u\<close> goes up by exactly one (nothing else changes). If the new count reaches the
  threshold, the message is the blocked one; otherwise it reports the attempts
  remaining, the threshold minus the new count.
\<close>

theorem login_wrong_password_counts:
  assumes "\<not> is_user_blocked u w"
    and "load_users w = Inr (JObj kvs)"
    and "map_of kvs u = Some (JObj entry)"
    and "map_of entry (str ''password'') = Some stored"
    and "hash_password p = Inr d"
    and "stored \<noteq> JStr d"
  shows "login u p w =
     (Inr (False, if max_attempts w \<le> attempts w u + 1 then Blocked (max_attempts w)
                  else WrongPassword (max_attempts w - (attempts w u + 1))),
      w\<lparr>failed_attempts := (failed_attempts w)(u \<mapsto> attempts w u + 1)\<rparr>)"
proof -
  have "login u p w =
     (Inr (False, if max_attempts w - (attempts w u + 1) \<le> 0 then Blocked (max_attempts w)
                  else WrongPassword (max_attempts w - (attempts w u + 1))),
      increment_failed_attempts u w)"
    using assms by (intro login_wrong [where users = "JObj kvs" and user = "JObj entry"]) simp_all
  then show ?thesis
    by (simp add: increment_failed_attempts_def)
qed

text \<open>
  \<open>alice\<close> is registered with \<open>secret1\<close> and logs in with \<open>wrong\<close>: one failure is
  counted and 2 attempts remain.
\<close>

theorem login_wrong_password_counts_witness:
  "\<not> is_user_blocked alice w_alice
   \<and> load_users w_alice = Inr (JObj alice_store)
   \<and> map_of alice_store alice =
        Some (JObj [(str ''password'', JStr secret1_digest), (str ''created_at'', JStr t0)])
   \<and> map_of [(str ''password'', JStr secret1_digest), (str ''created_at'', JStr t0)]
        (str ''password'') = Some (JStr secret1_digest)
   \<and> hash_password (str ''wrong'') = Inr wrong_digest
   \<and> JStr secret1_digest \<noteq> JStr wrong_digest
   \<and> login alice (str ''wrong'') w_alice =
        (Inr (False, WrongPassword 2), w_alice\<lparr>failed_attempts := [alice \<mapsto> 1]\<rparr>)"
proof -
  have h1: "\<not> is_user_blocked alice w_alice"
    by (simp add: is_user_blocked_def attempts_def init_def)
  have h3: "map_of alice_store alice =
        Some (JObj [(str ''password'', JStr secret1_digest), (str ''created_at'', JStr t0)])"
    by simp
  have h4: "map_of [(str ''password'', JStr secret1_digest), (str ''created_at'', JStr t0)]
        (str ''password'') = Some (JStr secret1_digest)"
    by simp
  have h6: "JStr secret1_digest \<noteq> JStr wrong_digest"
    using digests_differ by simp
  from login_wrong_password_counts [OF h1 load_users_w_alice h3 h4 hash_password_wrong h6]
  show ?thesis
    using h1 load_users_w_alice h6 hash_password_wrong
    by (simp add: attempts_def init_def)
qed

subsection \<open>C6: an unknown user counts failures too\<close>

text \<open>
  C6. The loaded store does not contain \<open>u\<close>. If \<open>u\<close> is not blocked, login fails with
  the not-found message and the failure count of \<open>u\<close> goes up by one. So, starting with no
  failure entry, threshold-many logins (with any passwords \<open>ps\<close>) all fail with the
  not-found message, the count is then the threshold, and every further login for \<open>u\<close>
  fails with the blocked message whatever the file system holds: the store is not
  consulted.
\<close>

theorem login_unknown_user_counts_and_blocks:
  assumes "load_users w = Inr users" and "py_in u users = Inr False"
  shows "(\<not> is_user_blocked u w \<longrightarrow>
            login u p w =
              (Inr (False, NotFound),
               w\<lparr>failed_attempts := (failed_attempts w)(u \<mapsto> attempts w u + 1)\<rparr>))
       \<and> (failed_attempts w u = None \<and> length ps = nat (max_attempts w) \<longrightarrow>
            fst (logins u ps w) = replicate (length ps) (Inr (False, NotFound))
          \<and> attempts (snd (logins u ps w)) u = int (length ps)
          \<and> (\<forall>q d. login u q (snd (logins u ps w)\<lparr>disk := d\<rparr>) =
                 (Inr (False, Blocked (max_attempts w)), snd (logins u ps w)\<lparr>disk := d\<rparr>)))"
proof (intro conjI impI)
  assume "\<not> is_user_blocked u w"
  then show "login u p w =
              (Inr (False, NotFound),
               w\<lparr>failed_attempts := (failed_attempts w)(u \<mapsto> attempts w u + 1)\<rparr>)"
    using assms by (simp add: login_not_found increment_failed_attempts_def)
next
  assume h: "failed_attempts w u = None \<and> length ps = nat (max_attempts w)"
  then have a0: "attempts w u = 0" by (simp add: attempts_def)
  with h have "attempts w u + int (length ps) \<le> max_attempts w \<or> ps = []" by auto
  then have run: "logins u ps w =
           (replicate (length ps) (Inr (False, NotFound)),
            (increment_failed_attempts u ^^ length ps) w)"
    using assms by (auto simp: logins_not_found)
  show "fst (logins u ps w) = replicate (length ps) (Inr (False, NotFound))"
    by (simp add: run)
  show "attempts (snd (logins u ps w)) u = int (length ps)"
    by (simp add: run a0)
  have "is_user_blocked u (snd (logins u ps w))"
    using h by (simp add: run is_user_blocked_def a0)
  then show "\<forall>q d. login u q (snd (logins u ps w)\<lparr>disk := d\<rparr>) =
                 (Inr (False, Blocked (max_attempts w)), snd (logins u ps w)\<lparr>disk := d\<rparr>)"
    by (simp add: login_blocked run)
qed

text \<open>
  Three guesses for \<open>ghost\<close> on an empty file system; the fourth login is blocked even
  where the file cannot be opened.
\<close>

theorem login_unknown_user_counts_and_blocks_witness:
  "load_users w_fresh = Inr (JObj [])
   \<and> py_in ghost (JObj []) = Inr False
   \<and> \<not> is_user_blocked ghost w_fresh
   \<and> login ghost (str ''guess1'') w_fresh =
        (Inr (False, NotFound), w_fresh\<lparr>failed_attempts := [ghost \<mapsto> 1]\<rparr>)
   \<and> failed_attempts w_fresh ghost = None
   \<and> length [str ''guess1'', str ''guess2'', str ''guess3''] = nat (max_attempts w_fresh)
   \<and> fst (logins ghost [str ''guess1'', str ''guess2'', str ''guess3''] w_fresh) =
        [Inr (False, NotFound), Inr (False, NotFound), Inr (False, NotFound)]
   \<and> attempts (snd (logins ghost [str ''guess1'', str ''guess2'', str ''guess3''] w_fresh)) ghost = 3
   \<and> fst (login ghost (str ''guess4'')
        (snd (logins ghost [str ''guess1'', str ''guess2'', str ''guess3''] w_fresh)
           \<lparr>disk := no_files(users_json := Unreadable OSError)\<rparr>)) = Inr (False, Blocked 3)"
proof -
  have h1: "load_users w_fresh = Inr (JObj [])"
    by (rule load_users_init_no_files)
  have h2: "py_in ghost (JObj []) = Inr False"
    by simp
  have h3: "\<not> is_user_blocked ghost w_fresh"
    by (simp add: is_user_blocked_def attempts_def init_def)
  have h4: "failed_attempts w_fresh ghost = None
      \<and> length [str ''guess1'', str ''guess2'', str ''guess3''] = nat (max_attempts w_fresh)"
    by (simp add: init_def)
  from login_unknown_user_counts_and_blocks [OF h1 h2,
      where p = "str ''guess1''" and ps = "[str ''guess1'', str ''guess2'', str ''guess3'']"]
  show ?thesis
    using h1 h3 h4 by (simp add: attempts_def init_def del: logins.simps)
qed

subsection \<open>C7: unblocking\<close>

text \<open>
  C7. \<open>unblock_user\<close> removes the failure entry of \<open>u\<close> and returns whether there was
  one. When \<open>u\<close> is blocked and registered with password \<open>p\<close> (the threshold being
  positive, as the 3 that \<open>AuthSystem\<close> sets), a login with \<open>p\<close> after the unblock
  succeeds and leaves \<open>u\<close> without a failure entry.
\<close>

theorem unblock_user_clears_and_recovers:
  "unblock_user u w =
     (failed_attempts w u \<noteq> None, w\<lparr>failed_attempts := (failed_attempts w)(u := None)\<rparr>)
   \<and> (is_user_blocked u w \<and> 0 < max_attempts w
        \<and> load_users w = Inr (JObj kvs) \<and> map_of kvs u = Some (JObj entry)
        \<and> map_of entry (str ''password'') = Some (JStr d) \<and> hash_password p = Inr d
      \<longrightarrow> fst (login u p (snd (unblock_user u w))) = Inr (True, LoginOk)
        \<and> failed_attempts (snd (login u p (snd (unblock_user u w)))) u = None)"
proof (intro conjI impI)
  show ub: "unblock_user u w =
     (failed_attempts w u \<noteq> None, w\<lparr>failed_attempts := (failed_attempts w)(u := None)\<rparr>)"
    by (cases "failed_attempts w u") (auto simp: unblock_user_def dom_def world_fa_upd_same)
  assume h: "is_user_blocked u w \<and> 0 < max_attempts w
        \<and> load_users w = Inr (JObj kvs) \<and> map_of kvs u = Some (JObj entry)
        \<and> map_of entry (str ''password'') = Some (JStr d) \<and> hash_password p = Inr d"
  define w' where "w' = w\<lparr>failed_attempts := (failed_attempts w)(u := None)\<rparr>"
  have nb: "\<not> is_user_blocked u w'"
    using h by (simp add: w'_def is_user_blocked_def attempts_def)
  have l: "load_users w' = Inr (JObj kvs)"
    using h by (simp add: w'_def load_users_def)
  have lg: "login u p w' = (Inr (True, LoginOk), reset_failed_attempts u w')"
    using nb l h by (intro login_right [where users = "JObj kvs" and user = "JObj entry"]) simp_all
  show "fst (login u p (snd (unblock_user u w))) = Inr (True, LoginOk)"
    by (simp add: ub lg flip: w'_def)
  show "failed_attempts (snd (login u p (snd (unblock_user u w)))) u = None"
    by (simp add: ub lg reset_failed_attempts_def flip: w'_def) (simp add: w'_def)
qed

text \<open>
  \<open>alice\<close> is registered and has 3 failures: unblocking her returns \<open>True\<close>, unblocking
  \<open>ghost\<close> returns \<open>False\<close>, and she then logs in with \<open>secret1\<close>.
\<close>

theorem unblock_user_clears_and_recovers_witness:
  "unblock_user alice w_alice_blocked = (True, w_alice)
   \<and> unblock_user ghost w_alice_blocked = (False, w_alice_blocked)
   \<and> is_user_blocked alice w_alice_blocked \<and> 0 < max_attempts w_alice_blocked
   \<and> load_users w_alice_blocked = Inr (JObj alice_store)
   \<and> hash_password (str ''secret1'') = Inr secret1_digest
   \<and> fst (login alice (str ''secret1'') (snd (unblock_user alice w_alice_blocked))) =
        Inr (True, LoginOk)
   \<and> failed_attempts
        (snd (login alice (str ''secret1'') (snd (unblock_user alice w_alice_blocked)))) alice = None"
proof -
  have h1: "is_user_blocked alice w_alice_blocked \<and> 0 < max_attempts w_alice_blocked"
    by (simp add: is_user_blocked_def attempts_def init_def)
  have h2: "load_users w_alice_blocked = Inr (JObj alice_store)"
    by (simp add: load_users_def init_def path_exists_def)
  have h3: "map_of alice_store alice =
        Some (JObj [(str ''password'', JStr secret1_digest), (str ''created_at'', JStr t0)])"
    by simp
  have h4: "map_of [(str ''password'', JStr secret1_digest), (str ''created_at'', JStr t0)]
        (str ''password'') = Some (JStr secret1_digest)"
    by simp
  have g: "failed_attempts w_alice_blocked ghost = None"
    by (simp add: init_def str_def)
  have e: "w_alice_blocked\<lparr>failed_attempts := (failed_attempts w_alice_blocked)(alice := None)\<rparr>
             = w_alice"
    by (simp add: init_def)
  from unblock_user_clears_and_recovers
    [where u = alice and w = w_alice_blocked and kvs = alice_store and d = secret1_digest
       and p = "str ''secret1''"
       and entry = "[(str ''password'', JStr secret1_digest), (str ''created_at'', JStr t0)]"]
    h1 h2 h3 h4 hash_password_secret1
  have a: "unblock_user alice w_alice_blocked =
             (failed_attempts w_alice_blocked alice \<noteq> None,
              w_alice_blocked\<lparr>failed_attempts := (failed_attempts w_alice_blocked)(alice := None)\<rparr>)"
    and b: "fst (login alice (str ''secret1'') (snd (unblock_user alice w_alice_blocked))) =
        Inr (True, LoginOk)"
    and c: "failed_attempts
        (snd (login alice (str ''secret1'') (snd (unblock_user alice w_alice_blocked)))) alice = None"
    by blast+
  have a': "unblock_user alice w_alice_blocked = (True, w_alice)"
    using a e by (simp add: init_def)
  have a'': "unblock_user ghost w_alice_blocked = (False, w_alice_blocked)"
    using g by (simp add: unblock_user_def dom_def)
  show ?thesis
    using a' a'' b c h1 h2 hash_password_secret1 by blast
qed

subsection \<open>C8: a missing or malformed file is an empty store\<close>

text \<open>
  C8. Loading is to return the empty mapping, without raising, whenever the file is
  absent or its contents are not valid JSON. \<open>_load_users\<close> does so for an absent file
  and for text on which \<open>json.load\<close> raises \<open>JSONDecodeError\<close>. A file whose bytes are
  not UTF-8 (the single byte \<open>0xFF\<close>) is not valid JSON either, but reading it raises
  \<open>UnicodeDecodeError\<close>, which the \<open>except\<close> clause does not name: \<open>_load_users\<close>
  raises, and so do login, \<open>user_exists\<close>, \<open>get_user_count\<close> and registration, where the
  claim has them behave as with no user registered.
\<close>

theorem load_users_raises_on_undecodable_bytes:
  "load_users w_undecodable = Inl UnicodeDecodeError
   \<and> login alice (str ''secret1'') w_undecodable = (Inl UnicodeDecodeError, w_undecodable)
   \<and> user_exists alice w_undecodable = (Inl UnicodeDecodeError, w_undecodable)
   \<and> get_user_count w_undecodable = (Inl UnicodeDecodeError, w_undecodable)
   \<and> register_user IoOk t0 alice (str ''secret1'') w_undecodable =
        (Inl UnicodeDecodeError, w_undecodable)
   \<and> load_users w_malformed = Inr (JObj [])
   \<and> load_users w_fresh = Inr (JObj [])"
proof -
  have l: "load_users w_undecodable = Inl UnicodeDecodeError"
    by (simp add: load_users_def init_def path_exists_def)
  have nb: "\<not> is_user_blocked alice w_undecodable"
    by (simp add: is_user_blocked_def attempts_def init_def)
  have a: "login alice (str ''secret1'') w_undecodable = (Inl UnicodeDecodeError, w_undecodable)"
    using nb by (simp add: login_def l)
  have b: "user_exists alice w_undecodable = (Inl UnicodeDecodeError, w_undecodable)"
    by (simp add: user_exists_def l)
  have c: "get_user_count w_undecodable = (Inl UnicodeDecodeError, w_undecodable)"
    by (simp add: get_user_count_def l)
  have d: "register_user IoOk t0 alice (str ''secret1'') w_undecodable =
        (Inl UnicodeDecodeError, w_undecodable)"
    by (simp add: register_user_def l)
  have e: "load_users w_malformed = Inr (JObj [])"
    by (simp add: load_users_def init_def path_exists_def)
  show ?thesis
    using l a b c d e load_users_init_no_files by blast
qed

subsection \<open>C9: what writes the file\<close>

text \<open>
  C9 says that only a successful registration changes the credential store. A
  registration that passes validation and the duplicate check opens the file for
  writing, which truncates it, before \<open>json.dump\<close> runs. When the dump raises, the
  registration fails and the file of \<open>alice\<close> is left without its document: on a
  username with a lone surrogate, which \<open>json.dump\<close> cannot write, and for \<open>bob\<close> when
  the operating system fails the write.
\<close>

theorem failed_registration_truncates_the_file:
  "disk w_alice users_json = Doc (JObj alice_store)
   \<and> fst (register_user IoOk t0 surrogate_name (str ''123456'') w_alice) = Inr (False, SaveError)
   \<and> disk (snd (register_user IoOk t0 surrogate_name (str ''123456'') w_alice)) users_json = NotJSON
   \<and> fst (register_user WriteFails t0 (str ''bob'') (str ''123456'') w_alice) = Inr (False, SaveError)
   \<and> disk (snd (register_user WriteFails t0 (str ''bob'') (str ''123456'') w_alice)) users_json = NotJSON"
proof -
  define entry where
    "entry = JObj [(str ''password'', JStr digest_123456), (str ''created_at'', JStr t0)]"
  define users' where "users' = JObj (AList.update surrogate_name entry alice_store)"
  define users'' where "users'' = JObj (AList.update (str ''bob'') entry alice_store)"
  have n: "map_of alice_store surrogate_name = None" "map_of alice_store (str ''bob'') = None"
    by (simp_all add: str_def)
  have r: "register_user IoOk t0 surrogate_name (str ''123456'') w_alice =
           (if fst (save_users IoOk users' w_alice) then Inr (True, Registered)
            else Inr (False, SaveError),
            snd (save_users IoOk users' w_alice))"
    using load_users_w_alice n hash_password_123456
    by (intro register_user_saves [where kvs = alice_store and d = digest_123456])
       (simp_all add: users'_def entry_def)
  have r': "register_user WriteFails t0 (str ''bob'') (str ''123456'') w_alice =
           (if fst (save_users WriteFails users'' w_alice) then Inr (True, Registered)
            else Inr (False, SaveError),
            snd (save_users WriteFails users'' w_alice))"
    using load_users_w_alice n hash_password_123456
    by (intro register_user_saves [where kvs = alice_store and d = digest_123456])
       (simp_all add: users''_def entry_def)
  have "\<not> encodable surrogate_name"
    by (simp add: encodable_def is_surrogate_def)
  then have "\<not> json_encodable users'"
    by (simp add: users'_def str_def)
  then have s: "save_users IoOk users' w_alice =
      (False, w_alice\<lparr>disk := (disk w_alice)(users_file w_alice := NotJSON)\<rparr>)"
    by (simp add: save_users_def)
  have s': "save_users WriteFails users'' w_alice =
      (False, w_alice\<lparr>disk := (disk w_alice)(users_file w_alice := NotJSON)\<rparr>)"
    by (simp add: save_users_def)
  show ?thesis
    by (simp add: r s r' s') (simp add: init_def)
qed

text \<open>
  C9, amended. Login never writes the file. A registration that fails validation or
  finds a duplicate leaves the world, and so the file, as it was. The file changes only
  in a registration that reaches the save: one that succeeds, or one that fails with
  the save-error message.
\<close>

theorem file_changes_only_at_the_save_step:
  "disk (snd (login u p w)) = disk w
   \<and> (fst (register_user env now u p w) \<in>
         {Inr (False, EmptyFields), Inr (False, UsernameTooShort),
          Inr (False, PasswordTooShort), Inr (False, UserExists)}
      \<longrightarrow> snd (register_user env now u p w) = w)
   \<and> (disk (snd (register_user env now u p w)) \<noteq> disk w
      \<longrightarrow> fst (register_user env now u p w) = Inr (True, Registered)
        \<or> fst (register_user env now u p w) = Inr (False, SaveError))"
proof (intro conjI impI)
  show "disk (snd (login u p w)) = disk w" by (rule login_keeps_disk)
next
  assume "fst (register_user env now u p w) \<in>
         {Inr (False, EmptyFields), Inr (False, UsernameTooShort),
          Inr (False, PasswordTooShort), Inr (False, UserExists)}"
  then show "snd (register_user env now u p w) = w"
    by (auto simp: register_user_def split: if_splits sum.splits bool.splits prod.splits)
next
  assume "disk (snd (register_user env now u p w)) \<noteq> disk w"
  then show "fst (register_user env now u p w) = Inr (True, Registered)
        \<or> fst (register_user env now u p w) = Inr (False, SaveError)"
    by (auto simp: register_user_def split: if_splits sum.splits bool.splits prod.splits)
qed

text \<open>
  A login and a duplicate registration on the store of \<open>alice\<close>, which leave the file,
  and the registration of \<open>alice\<close> on an empty file system, which writes it.
\<close>

theorem file_changes_only_at_the_save_step_witness:
  "disk (snd (login alice (str ''another1'') w_alice)) = disk w_alice
   \<and> fst (register_user IoOk t0 alice (str ''another1'') w_alice) = Inr (False, UserExists)
   \<and> snd (register_user IoOk t0 alice (str ''another1'') w_alice) = w_alice
   \<and> disk (snd (register_user IoOk t0 alice (str ''secret1'') w_fresh)) \<noteq> disk w_fresh
   \<and> fst (register_user IoOk t0 alice (str ''secret1'') w_fresh) = Inr (True, Registered)"
proof -
  have h: "fst (register_user IoOk t0 alice (str ''another1'') w_alice) = Inr (False, UserExists)"
    by (simp add: register_user_def load_users_w_alice)
  note T = file_changes_only_at_the_save_step
    [where u = alice and p = "str ''another1''" and w = w_alice and env = IoOk and now = t0]
  have a: "disk (snd (login alice (str ''another1'') w_alice)) = disk w_alice"
    using T by blast
  have b: "snd (register_user IoOk t0 alice (str ''another1'') w_alice) = w_alice"
    using T h by simp
  have "disk w_alice users_json \<noteq> disk w_fresh users_json"
    by (simp add: init_def no_files_def)
  then have c: "disk (snd (register_user IoOk t0 alice (str ''secret1'') w_fresh)) \<noteq> disk w_fresh"
    by (auto simp: register_user_fresh_alice)
  have "fst (register_user IoOk t0 alice (str ''secret1'') w_fresh) = Inr (True, Registered)
        \<or> fst (register_user IoOk t0 alice (str ''secret1'') w_fresh) = Inr (False, SaveError)"
    using file_changes_only_at_the_save_step
      [where u = alice and p = "str ''secret1''" and w = w_fresh and env = IoOk and now = t0] c
    by blast
  then have d: "fst (register_user IoOk t0 alice (str ''secret1'') w_fresh) = Inr (True, Registered)"
    by (simp add: register_user_fresh_alice)
  show ?thesis
    using a b c d h by simp
qed

subsection \<open>C10: registration and the lockout state\<close>

text \<open>
  C10. Registration does not modify the failure counts, whatever its outcome, and does
  not read them: with other failure counts \<open>fa\<close> the outcome is the same and the world
  left differs in the failure counts only. In particular a blocked username that is not
  in the store registers (valid lengths, a password that can be hashed, a save that
  succeeds), and the login with the right password that follows reports blocked.
\<close>

theorem register_user_ignores_lockout:
  "failed_attempts (snd (register_user env now u p w)) = failed_attempts w
   \<and> register_user env now u p (w\<lparr>failed_attempts := fa\<rparr>) =
       (fst (register_user env now u p w),
        snd (register_user env now u p w)\<lparr>failed_attempts := fa\<rparr>)
   \<and> (is_user_blocked u w \<and> 3 \<le> length u \<and> 6 \<le> length p
        \<and> load_users w = Inr (JObj kvs) \<and> map_of kvs u = None
        \<and> hash_password p = Inr d
        \<and> fst (save_users env (JObj (AList.update u
                   (JObj [(str ''password'', JStr d), (str ''created_at'', JStr now)]) kvs)) w)
      \<longrightarrow> fst (register_user env now u p w) = Inr (True, Registered)
        \<and> fst (login u p (snd (register_user env now u p w))) =
             Inr (False, Blocked (max_attempts w)))"
proof (intro conjI impI)
  show "failed_attempts (snd (register_user env now u p w)) = failed_attempts w"
    by (rule register_user_keeps_failed_attempts)
  show "register_user env now u p (w\<lparr>failed_attempts := fa\<rparr>) =
       (fst (register_user env now u p w),
        snd (register_user env now u p w)\<lparr>failed_attempts := fa\<rparr>)"
    by (rule register_user_frame)
  define users' where "users' = JObj (AList.update u
                   (JObj [(str ''password'', JStr d), (str ''created_at'', JStr now)]) kvs)"
  assume h: "is_user_blocked u w \<and> 3 \<le> length u \<and> 6 \<le> length p
        \<and> load_users w = Inr (JObj kvs) \<and> map_of kvs u = None
        \<and> hash_password p = Inr d
        \<and> fst (save_users env (JObj (AList.update u
                   (JObj [(str ''password'', JStr d), (str ''created_at'', JStr now)]) kvs)) w)"
  then have r: "register_user env now u p w = (Inr (True, Registered), snd (save_users env users' w))"
    using register_user_saves [of u p w kvs d users' now env] by (simp add: users'_def)
  show "fst (register_user env now u p w) = Inr (True, Registered)"
    by (simp add: r)
  have "is_user_blocked u (snd (save_users env users' w))"
    using h by (simp add: is_user_blocked_def attempts_def save_users_keeps_lockout)
  then show "fst (login u p (snd (register_user env now u p w))) =
             Inr (False, Blocked (max_attempts w))"
    by (simp add: r login_blocked save_users_keeps_lockout)
qed

text \<open>
  \<open>ghost\<close> is blocked by three not-found logins, registers with \<open>secret1\<close>, and is still
  blocked at the login with \<open>secret1\<close>.
\<close>

theorem register_user_ignores_lockout_witness:
  "snd (logins ghost [str ''guess1'', str ''guess2'', str ''guess3''] w_fresh) = w_ghost_blocked
   \<and> is_user_blocked ghost w_ghost_blocked
   \<and> load_users w_ghost_blocked = Inr (JObj [])
   \<and> hash_password (str ''secret1'') = Inr secret1_digest
   \<and> save_users IoOk (JObj ghost_store) w_ghost_blocked =
        (True, w_ghost_blocked\<lparr>disk := no_files(users_json := Doc (JObj ghost_store))\<rparr>)
   \<and> failed_attempts (snd (register_user IoOk t0 ghost (str ''secret1'') w_ghost_blocked)) =
        [ghost \<mapsto> 3]
   \<and> fst (register_user IoOk t0 ghost (str ''secret1'') w_ghost_blocked) = Inr (True, Registered)
   \<and> fst (login ghost (str ''secret1'')
            (snd (register_user IoOk t0 ghost (str ''secret1'') w_ghost_blocked))) =
        Inr (False, Blocked 3)"
proof -
  have h1: "is_user_blocked ghost w_ghost_blocked"
    by (simp add: is_user_blocked_def attempts_def init_def)
  have h2: "load_users w_ghost_blocked = Inr (JObj [])"
    by (simp add: load_users_def init_def no_files_def path_exists_def)
  have h3: "save_users IoOk (JObj ghost_store) w_ghost_blocked =
        (True, w_ghost_blocked\<lparr>disk := no_files(users_json := Doc (JObj ghost_store))\<rparr>)"
    by (simp add: save_users_def init_def encodable_str)
  have h4: "3 \<le> length ghost \<and> 6 \<le> length (str ''secret1'')"
    by simp
  have m: "max_attempts w_ghost_blocked = 3" and f: "failed_attempts w_ghost_blocked = [ghost \<mapsto> 3]"
    by (simp_all add: init_def)
  note T = register_user_ignores_lockout [where u = ghost and p = "str ''secret1''"
      and w = w_ghost_blocked and env = IoOk and now = t0 and kvs = "[]" and d = secret1_digest
      and fa = "Map.empty"]
  have a: "failed_attempts (snd (register_user IoOk t0 ghost (str ''secret1'') w_ghost_blocked)) =
        failed_attempts w_ghost_blocked"
    using T by blast
  have "fst (register_user IoOk t0 ghost (str ''secret1'') w_ghost_blocked) = Inr (True, Registered)
        \<and> fst (login ghost (str ''secret1'')
            (snd (register_user IoOk t0 ghost (str ''secret1'') w_ghost_blocked))) =
             Inr (False, Blocked (max_attempts w_ghost_blocked))"
    using T [THEN conjunct2, THEN conjunct2] h1 h2 h3 h4 hash_password_secret1 by simp
  then show ?thesis
    using a h1 h2 h3 hash_password_secret1 logins_ghost by (simp only: m f)
qed

end
